theory Spec2Isabelle
  imports Main "HOL-Library.Word"
begin

section \<open>Loading files from GCS into BigQuery: a model of \<^verbatim>\<open>src/bq_utils.py\<close>\<close>

text \<open>
  The module has two functions, \<^verbatim>\<open>load_parquet_from_gcs\<close> and
  \<^verbatim>\<open>load_csv_from_gcs\<close>. Both talk to two remote services through client objects
  of the Google libraries. The model keeps the functions as they are written and makes
  their effects explicit:
  \<^item> an exception is the left summand of a result \<open>exn + 'a\<close>;
  \<^item> a client is a record of operations on a world \<open>'w\<close> (the state of the remote
    services), each returning its outcome and the world after it;
  \<^item> every remote call and every \<^verbatim>\<open>print\<close> is appended to a trace of events, in
    the order in which the code performs them.
\<close>

subsection \<open>Python values\<close>

text \<open>
  The exceptions the functions can meet. All of them are instances of Python's
  \<^verbatim>\<open>Exception\<close>, which is what the handler on line 200 catches.
  \<open>GoogleCloudError\<close> stands for whatever a client library raises.
\<close>

datatype exn =
    ValueError string
  | AttributeError string
  | TypeError string
  | UnicodeDecodeError
  | UnicodeEncodeError
  | GoogleCloudError string

type_synonym bytes = "8 word list"

text \<open>A decoded text is the list of its code points.\<close>

type_synonym unicode = "nat list"

text \<open>Truthiness of an \<^verbatim>\<open>Optional[str]\<close>: \<^verbatim>\<open>None\<close> and the empty string are false.\<close>

fun truthy :: "'a list option \<Rightarrow> bool" where
  "truthy None = False"
| "truthy (Some s) = (s \<noteq> [])"

text \<open>
  \<^verbatim>\<open>str.lower()\<close> on the ASCII letters. The code only compares the lowered string
  with ASCII literals, and no character outside \<open>A..Z\<close> is lowered to one of their
  letters.
\<close>

definition lower_char :: "char \<Rightarrow> char" where
  "lower_char c =
     (case map_of (zip ''ABCDEFGHIJKLMNOPQRSTUVWXYZ'' ''abcdefghijklmnopqrstuvwxyz'') c of
        None \<Rightarrow> c
      | Some d \<Rightarrow> d)"

definition lower :: "string \<Rightarrow> string" where
  "lower s = map lower_char s"

subsection \<open>The two codecs of the conversion\<close>

text \<open>
  \<^verbatim>\<open>content.decode('utf-16le')\<close> in strict mode: two bytes make a code unit, low byte
  first; a high surrogate must be followed by a low surrogate, and the pair is one code
  point; a lone surrogate or a trailing odd byte raises \<^verbatim>\<open>UnicodeDecodeError\<close>.
  No byte order mark is removed.
\<close>

definition code_unit :: "8 word \<Rightarrow> 8 word \<Rightarrow> nat" where
  "code_unit b0 b1 = unat b0 + 256 * unat b1"

definition is_high_surrogate :: "nat \<Rightarrow> bool" where
  "is_high_surrogate u = (0xD800 \<le> u \<and> u < 0xDC00)"

definition is_low_surrogate :: "nat \<Rightarrow> bool" where
  "is_low_surrogate u = (0xDC00 \<le> u \<and> u < 0xE000)"

definition cons_ok :: "'a \<Rightarrow> exn + 'a list \<Rightarrow> exn + 'a list" where
  "cons_ok x r = (case r of Inl e \<Rightarrow> Inl e | Inr xs \<Rightarrow> Inr (x # xs))"

fun decode_utf16le :: "bytes \<Rightarrow> exn + unicode" where
  "decode_utf16le [] = Inr []"
| "decode_utf16le [b0] = Inl UnicodeDecodeError"
| "decode_utf16le [b0, b1] =
     (if is_high_surrogate (code_unit b0 b1) \<or> is_low_surrogate (code_unit b0 b1)
      then Inl UnicodeDecodeError else Inr [code_unit b0 b1])"
| "decode_utf16le [b0, b1, b2] = Inl UnicodeDecodeError"
| "decode_utf16le (b0 # b1 # b2 # b3 # bs) =
     (if is_high_surrogate (code_unit b0 b1) then
        (if is_low_surrogate (code_unit b2 b3)
         then cons_ok (0x10000 + (code_unit b0 b1 - 0xD800) * 1024 + (code_unit b2 b3 - 0xDC00))
                (decode_utf16le bs)
         else Inl UnicodeDecodeError)
      else if is_low_surrogate (code_unit b0 b1) then Inl UnicodeDecodeError
      else cons_ok (code_unit b0 b1) (decode_utf16le (b2 # b3 # bs)))"

text \<open>
  \<^verbatim>\<open>text_content.encode('utf-8')\<close>: one to four bytes for a code point; a surrogate
  code point raises \<^verbatim>\<open>UnicodeEncodeError\<close>.
\<close>

definition utf8_bytes :: "nat \<Rightarrow> bytes" where
  "utf8_bytes c =
     (if c < 0x80 then [of_nat c]
      else if c < 0x800 then [of_nat (0xC0 + c div 64), of_nat (0x80 + c mod 64)]
      else if c < 0x10000 then
        [of_nat (0xE0 + c div 4096), of_nat (0x80 + c div 64 mod 64), of_nat (0x80 + c mod 64)]
      else
        [of_nat (0xF0 + c div 262144), of_nat (0x80 + c div 4096 mod 64),
         of_nat (0x80 + c div 64 mod 64), of_nat (0x80 + c mod 64)])"

fun encode_utf8 :: "unicode \<Rightarrow> exn + bytes" where
  "encode_utf8 [] = Inr []"
| "encode_utf8 (c # cs) =
     (if is_high_surrogate c \<or> is_low_surrogate c then Inl UnicodeEncodeError
      else (case encode_utf8 cs of Inl e \<Rightarrow> Inl e | Inr bs \<Rightarrow> Inr (utf8_bytes c @ bs)))"

subsection \<open>The BigQuery load configuration\<close>

text \<open>
  \<^verbatim>\<open>bigquery.LoadJobConfig\<close>: every property is unset (\<open>None\<close>) until the code
  assigns it. The constructor on lines 49 and 152 sets the source format and the write
  disposition (and, for CSV, the number of skipped rows).
\<close>

datatype source_format = PARQUET | CSV

datatype bq_encoding = UTF_8 | ISO_8859_1

record schema_field =
  field_name :: string
  field_type :: string
  field_mode :: string

record job_config =
  cfg_source_format :: source_format
  cfg_write_disposition :: string
  cfg_skip_leading_rows :: "int option"
  cfg_encoding :: "bq_encoding option"
  cfg_field_delimiter :: "string option"
  cfg_date_format :: "string option"
  cfg_datetime_format :: "string option"
  cfg_schema :: "schema_field list option"
  cfg_autodetect :: "bool option"

text \<open>
  Modelled from the spec: the class \<^verbatim>\<open>bigquery.WriteDisposition\<close> belongs to the
  client library. Its members are string constants equal to their names; the write modes
  of the spec are \<^verbatim>\<open>WRITE_TRUNCATE\<close> (replace all rows) and \<^verbatim>\<open>WRITE_APPEND\<close>
  (add rows), and the library has \<^verbatim>\<open>WRITE_EMPTY\<close> besides. \<^verbatim>\<open>getattr\<close> with any
  other name raises \<^verbatim>\<open>AttributeError\<close>.
\<close>

definition WriteDisposition_getattr :: "string \<Rightarrow> exn + string" where
  "WriteDisposition_getattr name =
     (if name \<in> set [''WRITE_TRUNCATE'', ''WRITE_APPEND'', ''WRITE_EMPTY''] then Inr name
      else Inl (AttributeError name))"

text \<open>The metadata \<^verbatim>\<open>get_table\<close> returns; both properties are optional integers.\<close>

record table =
  num_rows :: "nat option"
  num_bytes :: "nat option"

subsection \<open>Clients, events and the trace\<close>

type_synonym job = nat

text \<open>
  What is printed. The texts are those of the f-strings of the source, kept with their
  arguments: lines 47/150, 125, 141, 63/192, 64/193, 66, 199 and 201. The primary key of
  line 66 is kept as the code points of the Python string.
\<close>

datatype msg =
    MsgLoading string string
  | MsgConversion string
  | MsgConverted string
  | MsgRows "nat option" string
  | MsgSize nat
  | MsgPrimaryKey unicode
  | MsgTempDeleted string
  | MsgWarnDelete string exn

datatype event =
    Download string string
  | Upload string string bytes string
  | Delete string string
  | Submit string string job_config
  | Wait job
  | GetTable string
  | Print msg

text \<open>
  \<^verbatim>\<open>bigquery.Client\<close>: \<^verbatim>\<open>load_table_from_uri(uri, table_id, job_config=...)\<close> returns
  a job, \<^verbatim>\<open>job.result()\<close> waits for it, \<^verbatim>\<open>get_table(table_id)\<close> reads the metadata.
\<close>

record 'w bq_client =
  load_table_from_uri :: "string \<Rightarrow> string \<Rightarrow> job_config \<Rightarrow> 'w \<Rightarrow> (exn + job) \<times> 'w"
  job_result :: "job \<Rightarrow> 'w \<Rightarrow> (exn + unit) \<times> 'w"
  get_table :: "string \<Rightarrow> 'w \<Rightarrow> (exn + table) \<times> 'w"

text \<open>
  \<^verbatim>\<open>storage.Client\<close>: the operations of a blob, given by bucket name and path.
  \<^verbatim>\<open>client.bucket(name)\<close> and \<^verbatim>\<open>bucket.blob(path)\<close> only build local handles.
\<close>

record 'w storage_client =
  download_as_bytes :: "string \<Rightarrow> string \<Rightarrow> 'w \<Rightarrow> (exn + bytes) \<times> 'w"
  upload_from_string :: "string \<Rightarrow> string \<Rightarrow> bytes \<Rightarrow> string \<Rightarrow> 'w \<Rightarrow> (exn + unit) \<times> 'w"
  blob_delete :: "string \<Rightarrow> string \<Rightarrow> 'w \<Rightarrow> (exn + unit) \<times> 'w"

text \<open>
  A statement of the source is an action on the world and the trace: it returns a value
  or raises.
\<close>

type_synonym ('w, 'a) act = "'w \<times> event list \<Rightarrow> (exn + 'a) \<times> 'w \<times> event list"

definition ret :: "'a \<Rightarrow> ('w, 'a) act" where
  "ret x s = (Inr x, s)"

definition py_raise :: "exn \<Rightarrow> ('w, 'a) act" where
  "py_raise e s = (Inl e, s)"

definition lift :: "exn + 'a \<Rightarrow> ('w, 'a) act" where
  "lift r s = (r, s)"

definition and_then :: "('w, 'a) act \<Rightarrow> ('a \<Rightarrow> ('w, 'b) act) \<Rightarrow> ('w, 'b) act" where
  "and_then m f s = (case m s of (Inl e, s') \<Rightarrow> (Inl e, s') | (Inr x, s') \<Rightarrow> f x s')"

text \<open>
  \<^verbatim>\<open>print\<close> of a text that the console can encode. The model takes this for granted
  for the fixed words of the messages and for what the request names (paths, buckets,
  table identifiers, counts): two runs on the same request print the same such texts.
\<close>

definition py_print :: "msg \<Rightarrow> ('w, unit) act" where
  "py_print m s = (Inr (), fst s, snd s @ [Print m])"

text \<open>
  \<^verbatim>\<open>print\<close> of a text that comes from the caller and goes nowhere else: standard
  output encodes it strictly, and a character that its encoding does not have raises
  \<^verbatim>\<open>UnicodeEncodeError\<close>. A console is the set of code points its encoding has.
\<close>

type_synonym console = "nat \<Rightarrow> bool"

definition console_print :: "console \<Rightarrow> unicode \<Rightarrow> msg \<Rightarrow> ('w, unit) act" where
  "console_print stdout text m =
     (if list_all stdout text then py_print m else py_raise UnicodeEncodeError)"

text \<open>A remote call is recorded when it is made, whatever its outcome.\<close>

definition call :: "event \<Rightarrow> ('w \<Rightarrow> (exn + 'a) \<times> 'w) \<Rightarrow> ('w, 'a) act" where
  "call ev f s = (case f (fst s) of (r, w') \<Rightarrow> (r, w', snd s @ [ev]))"

text \<open>\<^verbatim>\<open>try: m except Exception as e: h e\<close>\<close>

definition try_except :: "('w, 'a) act \<Rightarrow> (exn \<Rightarrow> ('w, 'a) act) \<Rightarrow> ('w, 'a) act" where
  "try_except m h s = (case m s of (Inl e, s') \<Rightarrow> h e s' | (Inr x, s') \<Rightarrow> (Inr x, s'))"

subsection \<open>Building the load configuration\<close>

text \<open>
  Lines 49 to 57 of \<^verbatim>\<open>load_parquet_from_gcs\<close>: the configuration, from the write
  disposition that \<^verbatim>\<open>getattr\<close> returned and the schema argument. An empty list is false
  in Python, as \<^verbatim>\<open>None\<close> is.
\<close>

definition parquet_job_config :: "string \<Rightarrow> schema_field list option \<Rightarrow> job_config" where
  "parquet_job_config wd schema =
     (let job_config = \<lparr>cfg_source_format = PARQUET, cfg_write_disposition = wd,
            cfg_skip_leading_rows = None, cfg_encoding = None, cfg_field_delimiter = None,
            cfg_date_format = None, cfg_datetime_format = None, cfg_schema = None,
            cfg_autodetect = None\<rparr>
      in if schema \<noteq> None \<and> schema \<noteq> Some [] then job_config\<lparr>cfg_schema := schema\<rparr>
         else job_config\<lparr>cfg_autodetect := Some True\<rparr>)"

text \<open>
  Lines 152 to 186 of \<^verbatim>\<open>load_csv_from_gcs\<close>: the configuration, from the write
  disposition that \<^verbatim>\<open>getattr\<close> returned and the arguments; \<open>encoding\<close> is the local
  variable as the conversion step left it. The separator compared on line 171 is the
  two characters backslash and \<open>t\<close>; the one assigned on line 172 is the tab character.
\<close>

definition csv_job_config ::
  "string \<Rightarrow> int \<Rightarrow> string option \<Rightarrow> string option \<Rightarrow> string option \<Rightarrow> string option \<Rightarrow>
   schema_field list option \<Rightarrow> job_config" where
  "csv_job_config wd skip_leading_rows encoding sep date_format datetime_format schema =
     (let job_config = \<lparr>cfg_source_format = CSV, cfg_write_disposition = wd,
            cfg_skip_leading_rows = Some skip_leading_rows, cfg_encoding = None,
            cfg_field_delimiter = None, cfg_date_format = None, cfg_datetime_format = None,
            cfg_schema = None, cfg_autodetect = None\<rparr>;
          job_config =
            (if truthy encoding then
               (if lower (the encoding) \<in> set [''utf-8'', ''utf8'']
                then job_config\<lparr>cfg_encoding := Some UTF_8\<rparr>
                else if lower (the encoding) \<in> set [''latin-1'', ''iso-8859-1'']
                then job_config\<lparr>cfg_encoding := Some ISO_8859_1\<rparr>
                else job_config\<lparr>cfg_encoding := Some UTF_8\<rparr>)
             else job_config);
          job_config =
            (if truthy sep then
               (let sep = (if the sep = [CHR 0x5C, CHR ''t''] then Some [CHR 0x09] else sep)
                in job_config\<lparr>cfg_field_delimiter := sep\<rparr>)
             else job_config);
          job_config =
            (if truthy date_format then job_config\<lparr>cfg_date_format := date_format\<rparr>
             else job_config);
          job_config =
            (if truthy datetime_format
             then job_config\<lparr>cfg_datetime_format := datetime_format\<rparr>
             else job_config)
      in if schema \<noteq> None \<and> schema \<noteq> Some [] then job_config\<lparr>cfg_schema := schema\<rparr>
         else job_config\<lparr>cfg_autodetect := Some True\<rparr>)"

subsection \<open>\<^verbatim>\<open>load_parquet_from_gcs\<close> (lines 13 to 68)\<close>

text \<open>
  The function has its parameters in the order of the source, after \<open>stdout\<close>: the
  console that \<^verbatim>\<open>print\<close> writes to, which line 66 needs for the primary key.
\<close>

definition load_parquet_from_gcs ::
  "console \<Rightarrow> string \<Rightarrow> string \<Rightarrow> 'w bq_client \<Rightarrow> string \<Rightarrow> string \<Rightarrow> string \<Rightarrow>
   schema_field list option \<Rightarrow> unicode option \<Rightarrow> string \<Rightarrow> ('w, string) act" where
  "load_parquet_from_gcs stdout gcs_path table_name bq_client project_id dataset_id
     bucket_name schema primary_key write_disposition =
   (let table_id = project_id @ ''.'' @ dataset_id @ ''.'' @ table_name;
        gcs_uri = ''gs://'' @ bucket_name @ ''/'' @ gcs_path
    in
    and_then (py_print (MsgLoading gcs_uri table_id)) (\<lambda>_.
    and_then (lift (WriteDisposition_getattr write_disposition)) (\<lambda>wd.
    let job_config = parquet_job_config wd schema in
    and_then (call (Submit gcs_uri table_id job_config)
                (load_table_from_uri bq_client gcs_uri table_id job_config)) (\<lambda>load_job.
    and_then (call (Wait load_job) (job_result bq_client load_job)) (\<lambda>_.
    and_then (call (GetTable table_id) (get_table bq_client table_id)) (\<lambda>table.
    and_then (py_print (MsgRows (num_rows table) table_id)) (\<lambda>_.
    and_then (case num_bytes table of
                None \<Rightarrow> py_raise (TypeError ''unsupported operand type(s) for /'')
              | Some n \<Rightarrow> py_print (MsgSize n)) (\<lambda>_.
    and_then (if truthy primary_key
              then console_print stdout (the primary_key) (MsgPrimaryKey (the primary_key))
              else ret ()) (\<lambda>_.
    ret table_id)))))))))"

subsection \<open>\<^verbatim>\<open>load_csv_from_gcs\<close> (lines 71 to 203)\<close>

text \<open>
  The locals \<^verbatim>\<open>temp_blob\<close>, \<^verbatim>\<open>temp_gcs_path\<close>, \<^verbatim>\<open>gcs_uri\<close> and \<^verbatim>\<open>encoding\<close> leave
  the conversion step (lines 117 to 148) as a tuple. A blob is the client it came from,
  its bucket and its path.
\<close>

text \<open>Line 119: the test that decides whether the file is converted.\<close>

definition needs_utf16_conversion :: "string option \<Rightarrow> bool" where
  "needs_utf16_conversion encoding =
     (truthy encoding \<and> lower (the encoding) \<in> set [''utf-16le'', ''utf-16-le''])"

definition load_csv_from_gcs ::
  "string \<Rightarrow> string \<Rightarrow> 'w bq_client \<Rightarrow> string \<Rightarrow> string \<Rightarrow> string \<Rightarrow>
   schema_field list option \<Rightarrow> int \<Rightarrow> string \<Rightarrow> string option \<Rightarrow> string option \<Rightarrow>
   string option \<Rightarrow> string option \<Rightarrow> 'w storage_client option \<Rightarrow> ('w, string) act" where
  "load_csv_from_gcs gcs_path table_name bq_client project_id dataset_id bucket_name
     schema skip_leading_rows write_disposition encoding sep date_format datetime_format
     storage_client =
   (let table_id = project_id @ ''.'' @ dataset_id @ ''.'' @ table_name in
    and_then
      (if needs_utf16_conversion encoding then
         (case storage_client of
            None \<Rightarrow> py_raise (ValueError
              ''storage_client est requis pour convertir les fichiers UTF-16LE en UTF-8'')
          | Some sc \<Rightarrow>
              and_then (py_print (MsgConversion gcs_path)) (\<lambda>_.
              and_then (call (Download bucket_name gcs_path)
                          (download_as_bytes sc bucket_name gcs_path)) (\<lambda>content.
              and_then (lift (decode_utf16le content)) (\<lambda>text_content.
              and_then (lift (encode_utf8 text_content)) (\<lambda>utf8_content.
              let temp_gcs_path = gcs_path @ ''.utf8'' in
              and_then (call (Upload bucket_name temp_gcs_path utf8_content ''text/plain'')
                          (upload_from_string sc bucket_name temp_gcs_path utf8_content
                             ''text/plain'')) (\<lambda>_.
              and_then (py_print (MsgConverted temp_gcs_path)) (\<lambda>_.
              ret (Some (sc, bucket_name, temp_gcs_path), Some temp_gcs_path,
                   ''gs://'' @ bucket_name @ ''/'' @ temp_gcs_path, Some ''utf-8''))))))))
       else ret (None, None, ''gs://'' @ bucket_name @ ''/'' @ gcs_path, encoding))
      (\<lambda>(temp_blob, temp_gcs_path, gcs_uri, encoding).
    and_then (py_print (MsgLoading gcs_uri table_id)) (\<lambda>_.
    and_then (lift (WriteDisposition_getattr write_disposition)) (\<lambda>wd.
    let job_config = csv_job_config wd skip_leading_rows encoding sep date_format
          datetime_format schema
    in
    and_then (call (Submit gcs_uri table_id job_config)
                (load_table_from_uri bq_client gcs_uri table_id job_config)) (\<lambda>load_job.
    and_then (call (Wait load_job) (job_result bq_client load_job)) (\<lambda>_.
    and_then (call (GetTable table_id) (get_table bq_client table_id)) (\<lambda>table.
    and_then (py_print (MsgRows (num_rows table) table_id)) (\<lambda>_.
    and_then (case num_bytes table of
                None \<Rightarrow> py_raise (TypeError ''unsupported operand type(s) for /'')
              | Some n \<Rightarrow> py_print (MsgSize n)) (\<lambda>_.
    and_then (case temp_blob of
                None \<Rightarrow> ret ()
              | Some (client, bucket, path) \<Rightarrow>
                  if truthy temp_gcs_path then
                    try_except
                      (and_then (call (Delete bucket path) (blob_delete client bucket path)) (\<lambda>_.
                       py_print (MsgTempDeleted (the temp_gcs_path))))
                      (\<lambda>e. py_print (MsgWarnDelete (the temp_gcs_path) e))
                  else ret ()) (\<lambda>_.
    ret table_id))))))))))"

subsection \<open>Reading a run\<close>

definition result_of :: "(exn + 'a) \<times> 'w \<times> event list \<Rightarrow> exn + 'a" where
  "result_of r = fst r"

definition world_of :: "(exn + 'a) \<times> 'w \<times> event list \<Rightarrow> 'w" where
  "world_of r = fst (snd r)"

definition trace_of :: "(exn + 'a) \<times> 'w \<times> event list \<Rightarrow> event list" where
  "trace_of r = snd (snd r)"

text \<open>The load jobs handed to the job engine, in order: source URI, table and configuration.\<close>

fun submissions :: "event list \<Rightarrow> (string \<times> string \<times> job_config) list" where
  "submissions [] = []"
| "submissions (Submit uri table_id cfg # es) = (uri, table_id, cfg) # submissions es"
| "submissions (_ # es) = submissions es"

fun downloads :: "event list \<Rightarrow> (string \<times> string) list" where
  "downloads [] = []"
| "downloads (Download bucket path # es) = (bucket, path) # downloads es"
| "downloads (_ # es) = downloads es"

fun uploads :: "event list \<Rightarrow> (string \<times> string \<times> bytes \<times> string) list" where
  "uploads [] = []"
| "uploads (Upload bucket path content content_type # es) =
     (bucket, path, content, content_type) # uploads es"
| "uploads (_ # es) = uploads es"

fun deletions :: "event list \<Rightarrow> (string \<times> string) list" where
  "deletions [] = []"
| "deletions (Delete bucket path # es) = (bucket, path) # deletions es"
| "deletions (_ # es) = deletions es"

fun is_storage_call :: "event \<Rightarrow> bool" where
  "is_storage_call (Download _ _) = True"
| "is_storage_call (Upload _ _ _ _) = True"
| "is_storage_call (Delete _ _) = True"
| "is_storage_call _ = False"




subsection \<open>In-memory services for running the functions\<close>

text \<open>
  A bucket store held in memory: a download or a delete of a missing object raises, and
  so does a delete when the store is read-only. The job engine accepts every job; the
  outcome of waiting for it is a parameter.
\<close>

type_synonym store = "string \<times> string \<Rightarrow> bytes option"

definition mem_storage :: "bool \<Rightarrow> store storage_client" where
  "mem_storage read_only =
     \<lparr>download_as_bytes = (\<lambda>bucket path w.
        (case w (bucket, path) of
           None \<Rightarrow> (Inl (GoogleCloudError ''NotFound''), w)
         | Some content \<Rightarrow> (Inr content, w))),
      upload_from_string = (\<lambda>bucket path content content_type w.
        (Inr (), w((bucket, path) := Some content))),
      blob_delete = (\<lambda>bucket path w.
        (if read_only then (Inl (GoogleCloudError ''Forbidden''), w)
         else case w (bucket, path) of
           None \<Rightarrow> (Inl (GoogleCloudError ''NotFound''), w)
         | Some content \<Rightarrow> (Inr (), w((bucket, path) := None))))\<rparr>"

definition mem_bq :: "exn + unit \<Rightarrow> store bq_client" where
  "mem_bq wait_outcome =
     \<lparr>load_table_from_uri = (\<lambda>uri table_id cfg w. (Inr 0, w)),
      job_result = (\<lambda>job w. (wait_outcome, w)),
      get_table = (\<lambda>table_id w. (Inr \<lparr>num_rows = Some 2, num_bytes = Some 10\<rparr>, w))\<rparr>"

text \<open>
  A console in UTF-8 has every code point but the surrogates; a console in Latin-1 has
  the first 256.
\<close>

definition utf8_console :: console where
  "utf8_console c = (\<not> is_high_surrogate c \<and> \<not> is_low_surrogate c)"


text \<open>One object, \<^verbatim>\<open>data/f.csv\<close> in \<^verbatim>\<open>bucket\<close>: the text \<^verbatim>\<open>a;b\<close> in UTF-16LE.\<close>

definition store0 :: store where
  "store0 = (\<lambda>k. None)((''bucket'', ''data/f.csv'') := Some [0x61, 0x00, 0x3B, 0x00, 0x62, 0x00])"

section \<open>Running the statements\<close>

text \<open>How a sequence of statements runs, one statement at a time.\<close>

lemma and_then_ret: "and_then (ret x) f = f x"
  by (rule ext) (simp add: and_then_def ret_def)

lemma and_then_raise: "and_then (py_raise e) f = py_raise e"
  by (rule ext) (simp add: and_then_def py_raise_def)

lemma and_then_lift:
  "and_then (lift r) f s = (case r of Inl e \<Rightarrow> (Inl e, s) | Inr x \<Rightarrow> f x s)"
  by (simp add: and_then_def lift_def split: sum.splits)

lemma and_then_print: "and_then (py_print m) f (w, tr) = f () (w, tr @ [Print m])"
  by (simp add: and_then_def py_print_def)

lemma and_then_call:
  "and_then (call ev op) f (w, tr) =
     (case op w of
        (Inl e, w') \<Rightarrow> (Inl e, w', tr @ [ev])
      | (Inr x, w') \<Rightarrow> f x (w', tr @ [ev]))"
  by (simp add: and_then_def call_def split: prod.splits sum.splits)

lemma and_then_assoc:
  "and_then (and_then m f) g = and_then m (\<lambda>x. and_then (f x) g)"
  by (rule ext) (simp add: and_then_def split: prod.splits sum.splits)

lemma and_then_try_except:
  "and_then (try_except m h) f s =
     (case m s of (Inl e, s') \<Rightarrow> and_then (h e) f s' | (Inr x, s') \<Rightarrow> f x s')"
  by (simp add: and_then_def try_except_def split: prod.splits sum.splits)

lemma and_then_console_print:
  "and_then (console_print stdout text m) f (w, tr) =
     (if list_all stdout text then f () (w, tr @ [Print m])
      else (Inl UnicodeEncodeError, w, tr))"
  by (simp add: console_print_def and_then_def py_print_def py_raise_def)

lemmas exec =
  and_then_assoc and_then_ret and_then_raise and_then_lift and_then_print and_then_call
  and_then_try_except and_then_console_print

lemmas run_defs =
  result_of_def world_of_def trace_of_def py_print_def ret_def py_raise_def try_except_def

lemma lower_ascii [simp]:
  "lower [] = []"
  "lower (c # cs) = lower_char c # lower cs"
  by (simp_all add: lower_def)

text \<open>The queries of a trace go through its concatenation.\<close>

lemma submissions_append [simp]: "submissions (xs @ ys) = submissions xs @ submissions ys"
  by (induction xs rule: submissions.induct) simp_all

lemma downloads_append [simp]: "downloads (xs @ ys) = downloads xs @ downloads ys"
  by (induction xs rule: downloads.induct) simp_all

lemma uploads_append [simp]: "uploads (xs @ ys) = uploads xs @ uploads ys"
  by (induction xs rule: uploads.induct) simp_all

lemma deletions_append [simp]: "deletions (xs @ ys) = deletions xs @ deletions ys"
  by (induction xs rule: deletions.induct) simp_all

text \<open>The empty string lowers to itself, so a UTF-16LE spelling is never empty.\<close>

lemma needs_utf16_conversion_Some:
  "needs_utf16_conversion (Some e) = (lower e \<in> set [''utf-16le'', ''utf-16-le''])"
  by (cases e) (simp_all add: needs_utf16_conversion_def)

lemma needs_utf16_conversion_None: "needs_utf16_conversion None = False"
  by (simp add: needs_utf16_conversion_def)

section \<open>The configuration that is built\<close>

lemma WriteDisposition_getattr_Inr:
  "WriteDisposition_getattr name = Inr d \<Longrightarrow> d = name"
  by (simp add: WriteDisposition_getattr_def split: if_splits)

lemma csv_job_config_encoding:
  "cfg_encoding (csv_job_config wd skip_leading_rows encoding sep date_format datetime_format
      schema) =
     (if truthy encoding then
        Some (if lower (the encoding) \<in> set [''utf-8'', ''utf8''] then UTF_8
              else if lower (the encoding) \<in> set [''latin-1'', ''iso-8859-1'']
              then ISO_8859_1
              else UTF_8)
      else None)"
  by (simp add: csv_job_config_def Let_def del: set_simps)

lemma csv_job_config_field_delimiter:
  "cfg_field_delimiter (csv_job_config wd skip_leading_rows encoding sep date_format
      datetime_format schema) =
     (if truthy sep then (if the sep = [CHR 0x5C, CHR ''t''] then Some [CHR 0x09] else sep)
      else None)"
  by (simp add: csv_job_config_def Let_def del: set_simps)

lemma csv_job_config_autodetect:
  "cfg_autodetect (csv_job_config wd skip_leading_rows encoding sep date_format
      datetime_format schema) =
     (if schema \<noteq> None \<and> schema \<noteq> Some [] then None else Some True)"
  by (simp add: csv_job_config_def Let_def del: set_simps)

lemma csv_job_config_utf8:
  "cfg_encoding (csv_job_config wd skip_leading_rows (Some ''utf-8'') sep date_format
      datetime_format schema) = Some UTF_8"
  by (simp add: csv_job_config_encoding lower_char_def)

section \<open>The text that was decoded can be encoded\<close>

text \<open>
  A strict UTF-16LE decoding yields no surrogate code point, so the encoding on line 134
  never raises.
\<close>

lemma decode_utf16le_scalar:
  "decode_utf16le bs = Inr t \<Longrightarrow> c \<in> set t \<Longrightarrow>
   \<not> is_high_surrogate c \<and> \<not> is_low_surrogate c"
proof (induction bs arbitrary: t rule: decode_utf16le.induct)
  case 1
  then show ?case by simp
next
  case (2 b0)
  then show ?case by simp
next
  case (3 b0 b1)
  then show ?case by (auto split: if_splits)
next
  case (4 b0 b1 b2)
  then show ?case by simp
next
  case (5 b0 b1 b2 b3 bs)
  show ?case
  proof (cases "is_high_surrogate (code_unit b0 b1)")
    case True
    with "5.prems" obtain t' where
      low: "is_low_surrogate (code_unit b2 b3)" and
      rest: "decode_utf16le bs = Inr t'" and
      t: "t = (0x10000 + (code_unit b0 b1 - 0xD800) * 1024 + (code_unit b2 b3 - 0xDC00)) # t'"
      by (auto simp: cons_ok_def split: if_splits sum.splits)
    from "5.prems"(2) t consider
      "c = 0x10000 + (code_unit b0 b1 - 0xD800) * 1024 + (code_unit b2 b3 - 0xDC00)"
      | "c \<in> set t'"
      by auto
    then show ?thesis
    proof cases
      case 1
      then show ?thesis by (simp add: is_high_surrogate_def is_low_surrogate_def)
    next
      case 2
      with "5.IH"(1) [OF True low rest] show ?thesis by simp
    qed
  next
    case False
    with "5.prems" obtain t' where
      nlow: "\<not> is_low_surrogate (code_unit b0 b1)" and
      rest: "decode_utf16le (b2 # b3 # bs) = Inr t'" and
      t: "t = code_unit b0 b1 # t'"
      by (auto simp: cons_ok_def split: if_splits sum.splits)
    from "5.prems"(2) t consider "c = code_unit b0 b1" | "c \<in> set t'"
      by auto
    then show ?thesis
    proof cases
      case 1
      with False nlow show ?thesis by simp
    next
      case 2
      with "5.IH"(2) [OF False nlow rest] show ?thesis by simp
    qed
  qed
qed

lemma encode_utf8_scalar:
  "(\<And>c. c \<in> set t \<Longrightarrow> \<not> is_high_surrogate c \<and> \<not> is_low_surrogate c) \<Longrightarrow>
   \<exists>u. encode_utf8 t = Inr u"
  by (induction t) auto

lemma encode_after_decode:
  "decode_utf16le bs = Inr t \<Longrightarrow> \<exists>u. encode_utf8 t = Inr u"
  by (rule encode_utf8_scalar) (rule decode_utf16le_scalar)

section \<open>The jobs a CSV load submits\<close>

lemma csv_submissions_direct:
  assumes "\<not> needs_utf16_conversion encoding"
  shows "submissions (trace_of (load_csv_from_gcs gcs_path table_name bq_client project_id
        dataset_id bucket_name schema skip_leading_rows write_disposition encoding sep
        date_format datetime_format storage_client (w, []))) =
     (case WriteDisposition_getattr write_disposition of
        Inl _ \<Rightarrow> []
      | Inr d \<Rightarrow> [(''gs://'' @ bucket_name @ ''/'' @ gcs_path,
                  project_id @ ''.'' @ dataset_id @ ''.'' @ table_name,
                  csv_job_config d skip_leading_rows encoding sep date_format datetime_format
                    schema)])"
  unfolding load_csv_from_gcs_def Let_def
  using assms
  by (simp add: exec run_defs split: prod.splits sum.splits option.splits)

lemma csv_submissions_converted:
  assumes "needs_utf16_conversion encoding"
  shows "submissions (trace_of (load_csv_from_gcs gcs_path table_name bq_client project_id
        dataset_id bucket_name schema skip_leading_rows write_disposition encoding sep
        date_format datetime_format storage_client (w, []))) = [] \<or>
     submissions (trace_of (load_csv_from_gcs gcs_path table_name bq_client project_id
        dataset_id bucket_name schema skip_leading_rows write_disposition encoding sep
        date_format datetime_format storage_client (w, []))) =
       [(''gs://'' @ bucket_name @ ''/'' @ gcs_path @ ''.utf8'',
         project_id @ ''.'' @ dataset_id @ ''.'' @ table_name,
         csv_job_config write_disposition skip_leading_rows (Some ''utf-8'') sep date_format
           datetime_format schema)]"
proof (cases storage_client)
  case None
  with assms show ?thesis
    unfolding load_csv_from_gcs_def Let_def
    by (simp add: exec run_defs)
next
  case (Some sc)
  with assms show ?thesis
    unfolding load_csv_from_gcs_def Let_def
    by (auto simp add: exec run_defs dest: WriteDisposition_getattr_Inr
        split: prod.splits sum.splits option.splits)
qed

text \<open>Evaluating the in-memory services and the codecs on concrete inputs.\<close>

lemmas mem_defs =
  mem_bq_def mem_storage_def store0_def WriteDisposition_getattr_def
  needs_utf16_conversion_def lower_char_def code_unit_def is_high_surrogate_def
  is_low_surrogate_def cons_ok_def utf8_bytes_def

section \<open>The claims\<close>

text \<open>
  C3. When the encoding is one of the UTF-16LE spellings (in any letter case) and no
  storage client is given, \<^verbatim>\<open>load_csv_from_gcs\<close> raises the \<^verbatim>\<open>ValueError\<close> of
  line 123 at once: the world is untouched and the trace has gained no event, so no
  object was downloaded or uploaded, no job was submitted and no temporary object exists.
\<close>

theorem missing_storage_client_raises_first:
  "lower e \<in> set [''utf-16le'', ''utf-16-le''] \<Longrightarrow>
   load_csv_from_gcs gcs_path table_name bq_client project_id dataset_id bucket_name
     schema skip_leading_rows write_disposition (Some e) sep date_format datetime_format
     None (w, tr)
   = (Inl (ValueError
        ''storage_client est requis pour convertir les fichiers UTF-16LE en UTF-8''), w, tr)"
  unfolding load_csv_from_gcs_def
  by (simp add: exec py_raise_def needs_utf16_conversion_Some del: set_simps)

theorem missing_storage_client_raises_first_witness:
  "lower ''UTF-16LE'' \<in> set [''utf-16le'', ''utf-16-le''] \<and>
   load_csv_from_gcs ''data/f.csv'' ''t'' (mem_bq (Inr ())) ''proj'' ''ds'' ''bucket''
     None 1 ''WRITE_TRUNCATE'' (Some ''UTF-16LE'') (Some '';'') None None None (store0, [])
   = (Inl (ValueError
        ''storage_client est requis pour convertir les fichiers UTF-16LE en UTF-8''),
      store0, [])"
proof -
  have h: "lower ''UTF-16LE'' \<in> set [''utf-16le'', ''utf-16-le'']"
    by (simp add: lower_char_def)
  show ?thesis
    by (rule conjI [OF h missing_storage_client_raises_first [OF h]])
qed

text \<open>
  C1. The claim: a temporary object that was created is deleted once after the load job,
  also when waiting for the job raises. The code does not do so. On the input below the
  object \<^verbatim>\<open>data/f.csv\<close> is converted and uploaded as \<^verbatim>\<open>data/f.csv.utf8\<close>, the
  job is submitted and \<^verbatim>\<open>load_job.result()\<close> raises: the exception leaves the
  function on line 189, the clean-up of lines 196 to 201 is never reached, no delete is
  attempted and the temporary object stays in the bucket.
\<close>

theorem temporary_object_leaks_when_job_wait_raises:
  "result_of (load_csv_from_gcs ''data/f.csv'' ''t''
      (mem_bq (Inl (GoogleCloudError ''BadRequest''))) ''proj'' ''ds'' ''bucket'' None 1
      ''WRITE_TRUNCATE'' (Some ''utf-16le'') (Some '';'') None None (Some (mem_storage False))
      (store0, []))
     = Inl (GoogleCloudError ''BadRequest'') \<and>
   uploads (trace_of (load_csv_from_gcs ''data/f.csv'' ''t''
      (mem_bq (Inl (GoogleCloudError ''BadRequest''))) ''proj'' ''ds'' ''bucket'' None 1
      ''WRITE_TRUNCATE'' (Some ''utf-16le'') (Some '';'') None None (Some (mem_storage False))
      (store0, [])))
     = [(''bucket'', ''data/f.csv.utf8'', [0x61, 0x3B, 0x62], ''text/plain'')] \<and>
   deletions (trace_of (load_csv_from_gcs ''data/f.csv'' ''t''
      (mem_bq (Inl (GoogleCloudError ''BadRequest''))) ''proj'' ''ds'' ''bucket'' None 1
      ''WRITE_TRUNCATE'' (Some ''utf-16le'') (Some '';'') None None (Some (mem_storage False))
      (store0, [])))
     = [] \<and>
   world_of (load_csv_from_gcs ''data/f.csv'' ''t''
      (mem_bq (Inl (GoogleCloudError ''BadRequest''))) ''proj'' ''ds'' ''bucket'' None 1
      ''WRITE_TRUNCATE'' (Some ''utf-16le'') (Some '';'') None None (Some (mem_storage False))
      (store0, [])) (''bucket'', ''data/f.csv.utf8'')
     = Some [0x61, 0x3B, 0x62]"
  unfolding load_csv_from_gcs_def Let_def
  by (simp add: exec run_defs mem_defs)

text \<open>
  C2. With an encoding that lowers to \<^verbatim>\<open>utf-16le\<close> or \<^verbatim>\<open>utf-16-le\<close> and a storage
  client: the source object is downloaded, once; when the download returns bytes that
  decode as UTF-16LE, their UTF-8 encoding exists and is what is uploaded, once, to
  \<^verbatim>\<open>gcs_path + ".utf8"\<close> in the same bucket with content type \<^verbatim>\<open>text/plain\<close>; every
  job that is submitted reads the temporary object and has the encoding UTF-8; and when
  the upload succeeds and the write disposition exists, that job is submitted.
\<close>

theorem utf16_conversion_redirects_load:
  assumes "lower e \<in> set [''utf-16le'', ''utf-16-le'']"
  shows
   "downloads (trace_of (load_csv_from_gcs gcs_path table_name bq_client project_id
       dataset_id bucket_name schema skip_leading_rows write_disposition (Some e) sep
       date_format datetime_format (Some sc) (w, []))) = [(bucket_name, gcs_path)] \<and>
    (\<forall>content w1 t. download_as_bytes sc bucket_name gcs_path w = (Inr content, w1) \<longrightarrow>
       decode_utf16le content = Inr t \<longrightarrow>
       (\<exists>u. encode_utf8 t = Inr u \<and>
          uploads (trace_of (load_csv_from_gcs gcs_path table_name bq_client project_id
            dataset_id bucket_name schema skip_leading_rows write_disposition (Some e) sep
            date_format datetime_format (Some sc) (w, []))) =
          [(bucket_name, gcs_path @ ''.utf8'', u, ''text/plain'')])) \<and>
    set (map (\<lambda>(uri, table_id, cfg). (uri, cfg_encoding cfg))
      (submissions (trace_of (load_csv_from_gcs gcs_path table_name bq_client project_id
         dataset_id bucket_name schema skip_leading_rows write_disposition (Some e) sep
         date_format datetime_format (Some sc) (w, [])))))
      \<subseteq> {(''gs://'' @ bucket_name @ ''/'' @ gcs_path @ ''.utf8'', Some UTF_8)} \<and>
    (\<forall>content w1 t u w2 d.
       download_as_bytes sc bucket_name gcs_path w = (Inr content, w1) \<longrightarrow>
       decode_utf16le content = Inr t \<longrightarrow>
       encode_utf8 t = Inr u \<longrightarrow>
       upload_from_string sc bucket_name (gcs_path @ ''.utf8'') u ''text/plain'' w1
         = (Inr (), w2) \<longrightarrow>
       WriteDisposition_getattr write_disposition = Inr d \<longrightarrow>
       map (\<lambda>(uri, table_id, cfg). (uri, cfg_encoding cfg))
         (submissions (trace_of (load_csv_from_gcs gcs_path table_name bq_client project_id
            dataset_id bucket_name schema skip_leading_rows write_disposition (Some e) sep
            date_format datetime_format (Some sc) (w, [])))) =
       [(''gs://'' @ bucket_name @ ''/'' @ gcs_path @ ''.utf8'', Some UTF_8)])"
proof -
  let ?run = "load_csv_from_gcs gcs_path table_name bq_client project_id
       dataset_id bucket_name schema skip_leading_rows write_disposition (Some e) sep
       date_format datetime_format (Some sc) (w, [])"
  have n: "needs_utf16_conversion (Some e)"
    using assms by (simp only: needs_utf16_conversion_Some)
  have 1: "downloads (trace_of ?run) = [(bucket_name, gcs_path)]"
    unfolding load_csv_from_gcs_def Let_def
    using n
    by (simp add: exec run_defs split: prod.splits sum.splits option.splits)
  have 2: "\<exists>u. encode_utf8 t = Inr u \<and>
          uploads (trace_of ?run) = [(bucket_name, gcs_path @ ''.utf8'', u, ''text/plain'')]"
    if d: "download_as_bytes sc bucket_name gcs_path w = (Inr content, w1)"
      and t: "decode_utf16le content = Inr t" for content w1 t
  proof -
    from encode_after_decode [OF t] obtain u where u: "encode_utf8 t = Inr u" ..
    have "uploads (trace_of ?run) = [(bucket_name, gcs_path @ ''.utf8'', u, ''text/plain'')]"
      unfolding load_csv_from_gcs_def Let_def
      using n d t u
      by (simp add: exec run_defs split: prod.splits sum.splits option.splits)
    with u show ?thesis by blast
  qed
  have "submissions (trace_of ?run) = [] \<or>
     submissions (trace_of ?run) =
       [(''gs://'' @ bucket_name @ ''/'' @ gcs_path @ ''.utf8'',
         project_id @ ''.'' @ dataset_id @ ''.'' @ table_name,
         csv_job_config write_disposition skip_leading_rows (Some ''utf-8'') sep date_format
           datetime_format schema)]"
    by (rule csv_submissions_converted [OF n])
  then have 3: "set (map (\<lambda>(uri, table_id, cfg). (uri, cfg_encoding cfg))
      (submissions (trace_of ?run)))
      \<subseteq> {(''gs://'' @ bucket_name @ ''/'' @ gcs_path @ ''.utf8'', Some UTF_8)}"
    by (auto simp add: csv_job_config_utf8)
  have 4: "map (\<lambda>(uri, table_id, cfg). (uri, cfg_encoding cfg))
         (submissions (trace_of ?run)) =
       [(''gs://'' @ bucket_name @ ''/'' @ gcs_path @ ''.utf8'', Some UTF_8)]"
    if "download_as_bytes sc bucket_name gcs_path w = (Inr content, w1)"
       "decode_utf16le content = Inr t"
       "encode_utf8 t = Inr u"
       "upload_from_string sc bucket_name (gcs_path @ ''.utf8'') u ''text/plain'' w1
         = (Inr (), w2)"
       "WriteDisposition_getattr write_disposition = Inr d"
    for content w1 t u w2 d
    unfolding load_csv_from_gcs_def Let_def
    using n that
    by (simp add: exec run_defs csv_job_config_utf8 split: prod.splits sum.splits option.splits)
  from 1 2 3 4 show ?thesis by blast
qed

theorem utf16_conversion_redirects_load_witness:
  "lower ''UTF-16LE'' \<in> set [''utf-16le'', ''utf-16-le''] \<and>
   downloads (trace_of (load_csv_from_gcs ''data/f.csv'' ''t'' (mem_bq (Inr ())) ''proj''
       ''ds'' ''bucket'' None 1 ''WRITE_TRUNCATE'' (Some ''UTF-16LE'') (Some '';'') None None
       (Some (mem_storage False)) (store0, []))) = [(''bucket'', ''data/f.csv'')] \<and>
   uploads (trace_of (load_csv_from_gcs ''data/f.csv'' ''t'' (mem_bq (Inr ())) ''proj''
       ''ds'' ''bucket'' None 1 ''WRITE_TRUNCATE'' (Some ''UTF-16LE'') (Some '';'') None None
       (Some (mem_storage False)) (store0, []))) =
     [(''bucket'', ''data/f.csv.utf8'', [0x61, 0x3B, 0x62], ''text/plain'')] \<and>
   map (\<lambda>(uri, table_id, cfg). (uri, cfg_encoding cfg))
     (submissions (trace_of (load_csv_from_gcs ''data/f.csv'' ''t'' (mem_bq (Inr ())) ''proj''
       ''ds'' ''bucket'' None 1 ''WRITE_TRUNCATE'' (Some ''UTF-16LE'') (Some '';'') None None
       (Some (mem_storage False)) (store0, [])))) =
     [(''gs://bucket/data/f.csv.utf8'', Some UTF_8)]"
proof -
  let ?run = "load_csv_from_gcs ''data/f.csv'' ''t'' (mem_bq (Inr ())) ''proj''
       ''ds'' ''bucket'' None 1 ''WRITE_TRUNCATE'' (Some ''UTF-16LE'') (Some '';'') None None
       (Some (mem_storage False)) (store0, [])"
  have h: "lower ''UTF-16LE'' \<in> set [''utf-16le'', ''utf-16-le'']"
    by (simp add: lower_char_def)
  note T = utf16_conversion_redirects_load [OF h, of "''data/f.csv''" "''t''" "mem_bq (Inr ())"
      "''proj''" "''ds''" "''bucket''" None 1 "''WRITE_TRUNCATE''" "Some '';''" None None
      "mem_storage False" store0]
  have dl: "download_as_bytes (mem_storage False) ''bucket'' ''data/f.csv'' store0
      = (Inr [0x61, 0x00, 0x3B, 0x00, 0x62, 0x00], store0)"
    by (simp add: mem_defs)
  have dec: "decode_utf16le [0x61, 0x00, 0x3B, 0x00, 0x62, 0x00] = Inr [97, 59, 98]"
    by (simp add: mem_defs)
  have enc: "encode_utf8 [97, 59, 98] = Inr [0x61, 0x3B, 0x62]"
    by (simp add: mem_defs)
  have up: "upload_from_string (mem_storage False) ''bucket'' (''data/f.csv'' @ ''.utf8'')
      [0x61, 0x3B, 0x62] ''text/plain'' store0
      = (Inr (), store0((''bucket'', ''data/f.csv.utf8'') := Some [0x61, 0x3B, 0x62]))"
    by (simp add: mem_storage_def)
  have wd: "WriteDisposition_getattr ''WRITE_TRUNCATE'' = Inr ''WRITE_TRUNCATE''"
    by (simp add: mem_defs)
  from T have a: "downloads (trace_of ?run) = [(''bucket'', ''data/f.csv'')]"
    by blast
  from T dl dec have "\<exists>u. encode_utf8 [97, 59, 98] = Inr u \<and>
      uploads (trace_of ?run) = [(''bucket'', ''data/f.csv'' @ ''.utf8'', u, ''text/plain'')]"
    by blast
  with enc have b: "uploads (trace_of ?run) =
      [(''bucket'', ''data/f.csv.utf8'', [0x61, 0x3B, 0x62], ''text/plain'')]"
    by auto
  from T dl dec enc up wd have c: "map (\<lambda>(uri, table_id, cfg). (uri, cfg_encoding cfg))
      (submissions (trace_of ?run)) =
      [(''gs://'' @ ''bucket'' @ ''/'' @ ''data/f.csv'' @ ''.utf8'', Some UTF_8)]"
    by blast
  from h a b c show ?thesis by simp
qed

text \<open>
  C4. With no encoding, or one of \<^verbatim>\<open>utf8\<close>, \<^verbatim>\<open>UTF8\<close>, \<^verbatim>\<open>iso-8859-1\<close>,
  \<^verbatim>\<open>ISO_8859_1\<close>: the run makes no call to the object store (so nothing is uploaded
  and no temporary object exists), whether a storage client is given or not, and the job
  it submits reads \<^verbatim>\<open>gs://{bucket_name}/{gcs_path}\<close>. A job is submitted exactly when
  the write disposition exists.
\<close>

theorem direct_encodings_touch_no_object:
  assumes "encoding \<in> {None, Some ''utf8'', Some ''UTF8'', Some ''iso-8859-1'',
     Some ''ISO_8859_1''}"
  shows "filter is_storage_call (trace_of (load_csv_from_gcs gcs_path table_name bq_client
       project_id dataset_id bucket_name schema skip_leading_rows write_disposition encoding
       sep date_format datetime_format storage_client (w, []))) = [] \<and>
     uploads (trace_of (load_csv_from_gcs gcs_path table_name bq_client
       project_id dataset_id bucket_name schema skip_leading_rows write_disposition encoding
       sep date_format datetime_format storage_client (w, []))) = [] \<and>
     map fst (submissions (trace_of (load_csv_from_gcs gcs_path table_name bq_client
       project_id dataset_id bucket_name schema skip_leading_rows write_disposition encoding
       sep date_format datetime_format storage_client (w, [])))) =
     (case WriteDisposition_getattr write_disposition of
        Inl _ \<Rightarrow> []
      | Inr _ \<Rightarrow> [''gs://'' @ bucket_name @ ''/'' @ gcs_path])"
proof -
  let ?run = "load_csv_from_gcs gcs_path table_name bq_client
       project_id dataset_id bucket_name schema skip_leading_rows write_disposition encoding
       sep date_format datetime_format storage_client (w, [])"
  have n: "\<not> needs_utf16_conversion encoding"
    using assms by (auto simp: lower_char_def needs_utf16_conversion_def)
  have 1: "filter is_storage_call (trace_of ?run) = [] \<and> uploads (trace_of ?run) = []"
    unfolding load_csv_from_gcs_def Let_def
    using n
    by (simp add: exec run_defs split: prod.splits sum.splits option.splits)
  have 2: "map fst (submissions (trace_of ?run)) =
     (case WriteDisposition_getattr write_disposition of
        Inl _ \<Rightarrow> []
      | Inr _ \<Rightarrow> [''gs://'' @ bucket_name @ ''/'' @ gcs_path])"
    by (simp add: csv_submissions_direct [OF n] split: sum.splits)
  from 1 2 show ?thesis by blast
qed

theorem direct_encodings_touch_no_object_witness:
  "Some ''ISO_8859_1'' \<in> {None, Some ''utf8'', Some ''UTF8'', Some ''iso-8859-1'',
     Some ''ISO_8859_1''} \<and>
   filter is_storage_call (trace_of (load_csv_from_gcs ''data/f.csv'' ''t'' (mem_bq (Inr ()))
     ''proj'' ''ds'' ''bucket'' None 1 ''WRITE_TRUNCATE'' (Some ''ISO_8859_1'') (Some '';'')
     None None (Some (mem_storage False)) (store0, []))) = [] \<and>
   uploads (trace_of (load_csv_from_gcs ''data/f.csv'' ''t'' (mem_bq (Inr ()))
     ''proj'' ''ds'' ''bucket'' None 1 ''WRITE_TRUNCATE'' (Some ''ISO_8859_1'') (Some '';'')
     None None (Some (mem_storage False)) (store0, []))) = [] \<and>
   map fst (submissions (trace_of (load_csv_from_gcs ''data/f.csv'' ''t'' (mem_bq (Inr ()))
     ''proj'' ''ds'' ''bucket'' None 1 ''WRITE_TRUNCATE'' (Some ''ISO_8859_1'') (Some '';'')
     None None (Some (mem_storage False)) (store0, [])))) = [''gs://bucket/data/f.csv'']"
proof -
  have h: "Some ''ISO_8859_1'' \<in> {None, Some ''utf8'', Some ''UTF8'', Some ''iso-8859-1'',
     Some ''ISO_8859_1''}"
    by simp
  have wd: "WriteDisposition_getattr ''WRITE_TRUNCATE'' = Inr ''WRITE_TRUNCATE''"
    by (simp add: WriteDisposition_getattr_def)
  from direct_encodings_touch_no_object [OF h, of "''data/f.csv''" "''t''" "mem_bq (Inr ())"
      "''proj''" "''ds''" "''bucket''" None 1 "''WRITE_TRUNCATE''" "Some '';''" None None
      "Some (mem_storage False)" store0]
  show ?thesis using h by (simp add: wd)
qed

text \<open>
  C5, as the claim states it. In the scenario the encoding is \<^verbatim>\<open>None\<close>, so the test on
  line 159 fails and \<^verbatim>\<open>job_config.encoding\<close> is never assigned: the configuration
  that is submitted has no encoding, not UTF-8.
\<close>

theorem scenario_encoding_is_left_unset:
  "map (cfg_encoding \<circ> snd \<circ> snd)
     (submissions (trace_of (load_csv_from_gcs ''data/f.csv'' ''t'' (mem_bq (Inr ()))
        ''proj'' ''ds'' ''bucket'' None 1 ''WRITE_TRUNCATE'' None (Some '';'') None None None
        (store0, [])))) = [None]"
  unfolding load_csv_from_gcs_def Let_def
  by (simp add: exec run_defs mem_defs csv_job_config_encoding)

text \<open>
  C5, amended. The call of the scenario (write disposition \<^verbatim>\<open>WRITE_TRUNCATE\<close>, no
  schema, no encoding, separator \<^verbatim>\<open>;\<close>) submits one job with source URI
  \<^verbatim>\<open>gs://bucket/data/f.csv\<close> for the table \<^verbatim>\<open>proj.ds.t\<close>; its configuration has the
  field delimiter \<^verbatim>\<open>;\<close>, autodetect set to true and the encoding left unset. When the
  job and the metadata read succeed, the function returns \<^verbatim>\<open>proj.ds.t\<close>.
\<close>

theorem scenario_semicolon_autodetect:
  assumes "load_table_from_uri bq_client ''gs://bucket/data/f.csv'' ''proj.ds.t''
             (csv_job_config ''WRITE_TRUNCATE'' skip_leading_rows None (Some '';'') date_format
                datetime_format None) w = (Inr j, w1)"
    and "job_result bq_client j w1 = (Inr (), w2)"
    and "get_table bq_client ''proj.ds.t'' w2 = (Inr table, w3)"
    and "num_bytes table = Some n"
  shows "result_of (load_csv_from_gcs ''data/f.csv'' ''t'' bq_client ''proj'' ''ds'' ''bucket''
           None skip_leading_rows ''WRITE_TRUNCATE'' None (Some '';'') date_format
           datetime_format storage_client (w, [])) = Inr ''proj.ds.t'' \<and>
         submissions (trace_of (load_csv_from_gcs ''data/f.csv'' ''t'' bq_client ''proj'' ''ds''
           ''bucket'' None skip_leading_rows ''WRITE_TRUNCATE'' None (Some '';'') date_format
           datetime_format storage_client (w, []))) =
           [(''gs://bucket/data/f.csv'', ''proj.ds.t'',
             csv_job_config ''WRITE_TRUNCATE'' skip_leading_rows None (Some '';'') date_format
               datetime_format None)] \<and>
         cfg_field_delimiter (csv_job_config ''WRITE_TRUNCATE'' skip_leading_rows None
           (Some '';'') date_format datetime_format None) = Some '';'' \<and>
         cfg_encoding (csv_job_config ''WRITE_TRUNCATE'' skip_leading_rows None
           (Some '';'') date_format datetime_format None) = None \<and>
         cfg_autodetect (csv_job_config ''WRITE_TRUNCATE'' skip_leading_rows None
           (Some '';'') date_format datetime_format None) = Some True"
  unfolding load_csv_from_gcs_def Let_def
  using assms
  by (simp add: exec run_defs WriteDisposition_getattr_def needs_utf16_conversion_None
      csv_job_config_encoding csv_job_config_field_delimiter csv_job_config_autodetect)

theorem scenario_semicolon_autodetect_witness:
  "result_of (load_csv_from_gcs ''data/f.csv'' ''t'' (mem_bq (Inr ())) ''proj'' ''ds''
     ''bucket'' None 1 ''WRITE_TRUNCATE'' None (Some '';'') None None None (store0, []))
     = Inr ''proj.ds.t'' \<and>
   submissions (trace_of (load_csv_from_gcs ''data/f.csv'' ''t'' (mem_bq (Inr ())) ''proj''
     ''ds'' ''bucket'' None 1 ''WRITE_TRUNCATE'' None (Some '';'') None None None (store0, [])))
     = [(''gs://bucket/data/f.csv'', ''proj.ds.t'',
         csv_job_config ''WRITE_TRUNCATE'' 1 None (Some '';'') None None None)] \<and>
   cfg_field_delimiter (csv_job_config ''WRITE_TRUNCATE'' 1 None (Some '';'') None None None)
     = Some '';'' \<and>
   cfg_encoding (csv_job_config ''WRITE_TRUNCATE'' 1 None (Some '';'') None None None) = None \<and>
   cfg_autodetect (csv_job_config ''WRITE_TRUNCATE'' 1 None (Some '';'') None None None)
     = Some True"
proof -
  have a: "load_table_from_uri (mem_bq (Inr ())) ''gs://bucket/data/f.csv'' ''proj.ds.t''
      (csv_job_config ''WRITE_TRUNCATE'' 1 None (Some '';'') None None None) store0
      = (Inr 0, store0)"
    by (simp add: mem_bq_def)
  have b: "job_result (mem_bq (Inr ())) 0 store0 = (Inr (), store0)"
    by (simp add: mem_bq_def)
  have c: "get_table (mem_bq (Inr ())) ''proj.ds.t'' store0
      = (Inr \<lparr>num_rows = Some 2, num_bytes = Some 10\<rparr>, store0)"
    by (simp add: mem_bq_def)
  have d: "num_bytes \<lparr>num_rows = Some 2, num_bytes = Some 10\<rparr> = Some 10"
    by simp
  show ?thesis
    by (rule scenario_semicolon_autodetect [OF a b c d])
qed

text \<open>
  C6, as the claim states it. The empty string is a supplied encoding that does not
  trigger the conversion, and it is false on line 159: the configuration that is
  submitted has no encoding, not UTF-8.
\<close>

theorem empty_encoding_is_left_unset:
  "map (cfg_encoding \<circ> snd \<circ> snd)
     (submissions (trace_of (load_csv_from_gcs ''data/f.csv'' ''t'' (mem_bq (Inr ()))
        ''proj'' ''ds'' ''bucket'' None 1 ''WRITE_TRUNCATE'' (Some '''') (Some '';'') None None
        None (store0, [])))) = [None]"
  unfolding load_csv_from_gcs_def Let_def
  by (simp add: exec run_defs mem_defs csv_job_config_encoding)

text \<open>
  C6, amended. For every supplied encoding string that does not trigger the conversion,
  the job that is submitted has: no encoding when the string is empty; otherwise UTF-8
  when the string lowers to \<^verbatim>\<open>utf-8\<close> or \<^verbatim>\<open>utf8\<close>, ISO-8859-1 when it lowers to
  \<^verbatim>\<open>latin-1\<close> or \<^verbatim>\<open>iso-8859-1\<close>, and UTF-8 for any other non-empty string.
\<close>

theorem encoding_of_submitted_job:
  assumes "\<not> needs_utf16_conversion (Some e)"
    and "WriteDisposition_getattr write_disposition = Inr d"
  shows "map (cfg_encoding \<circ> snd \<circ> snd)
     (submissions (trace_of (load_csv_from_gcs gcs_path table_name bq_client project_id
        dataset_id bucket_name schema skip_leading_rows write_disposition (Some e) sep
        date_format datetime_format storage_client (w, [])))) =
     [if e = [] then None
      else Some (if lower e \<in> set [''utf-8'', ''utf8''] then UTF_8
                 else if lower e \<in> set [''latin-1'', ''iso-8859-1''] then ISO_8859_1
                 else UTF_8)]"
  using assms(2)
  by (simp add: csv_submissions_direct [OF assms(1)] csv_job_config_encoding del: set_simps)

theorem encoding_of_submitted_job_witness:
  "\<not> needs_utf16_conversion (Some ''Latin-1'') \<and>
   \<not> needs_utf16_conversion (Some ''ISO_8859_1'') \<and>
   WriteDisposition_getattr ''WRITE_TRUNCATE'' = Inr ''WRITE_TRUNCATE'' \<and>
   map (cfg_encoding \<circ> snd \<circ> snd)
     (submissions (trace_of (load_csv_from_gcs ''data/f.csv'' ''t'' (mem_bq (Inr ()))
        ''proj'' ''ds'' ''bucket'' None 1 ''WRITE_TRUNCATE'' (Some ''Latin-1'') (Some '';'')
        None None None (store0, [])))) = [Some ISO_8859_1] \<and>
   map (cfg_encoding \<circ> snd \<circ> snd)
     (submissions (trace_of (load_csv_from_gcs ''data/f.csv'' ''t'' (mem_bq (Inr ()))
        ''proj'' ''ds'' ''bucket'' None 1 ''WRITE_TRUNCATE'' (Some ''ISO_8859_1'') (Some '';'')
        None None None (store0, [])))) = [Some UTF_8]"
proof -
  have n1: "\<not> needs_utf16_conversion (Some ''Latin-1'')"
    by (simp add: needs_utf16_conversion_def lower_char_def)
  have n2: "\<not> needs_utf16_conversion (Some ''ISO_8859_1'')"
    by (simp add: needs_utf16_conversion_def lower_char_def)
  have wd: "WriteDisposition_getattr ''WRITE_TRUNCATE'' = Inr ''WRITE_TRUNCATE''"
    by (simp add: WriteDisposition_getattr_def)
  have 1: "map (cfg_encoding \<circ> snd \<circ> snd)
     (submissions (trace_of (load_csv_from_gcs ''data/f.csv'' ''t'' (mem_bq (Inr ()))
        ''proj'' ''ds'' ''bucket'' None 1 ''WRITE_TRUNCATE'' (Some ''Latin-1'') (Some '';'')
        None None None (store0, [])))) = [Some ISO_8859_1]"
    using encoding_of_submitted_job [OF n1 wd, of "''data/f.csv''" "''t''" "mem_bq (Inr ())"
      "''proj''" "''ds''" "''bucket''" None 1 "Some '';''" None None None store0]
    by (simp add: lower_char_def)
  have 2: "map (cfg_encoding \<circ> snd \<circ> snd)
     (submissions (trace_of (load_csv_from_gcs ''data/f.csv'' ''t'' (mem_bq (Inr ()))
        ''proj'' ''ds'' ''bucket'' None 1 ''WRITE_TRUNCATE'' (Some ''ISO_8859_1'') (Some '';'')
        None None None (store0, [])))) = [Some UTF_8]"
    using encoding_of_submitted_job [OF n2 wd, of "''data/f.csv''" "''t''" "mem_bq (Inr ())"
      "''proj''" "''ds''" "''bucket''" None 1 "Some '';''" None None None store0]
    by (simp add: lower_char_def)
  from n1 n2 wd 1 2 show ?thesis by blast
qed

text \<open>
  C7, as the claim states it. The empty string is a supplied separator other than
  backslash-t, and it is false on line 169: \<^verbatim>\<open>job_config.field_delimiter\<close> is never
  assigned, so the separator is not passed through.
\<close>

theorem empty_separator_is_left_unset:
  "map (cfg_field_delimiter \<circ> snd \<circ> snd)
     (submissions (trace_of (load_csv_from_gcs ''data/f.csv'' ''t'' (mem_bq (Inr ()))
        ''proj'' ''ds'' ''bucket'' None 1 ''WRITE_TRUNCATE'' None (Some '''') None None None
        (store0, [])))) = [None]"
  unfolding load_csv_from_gcs_def Let_def
  by (simp add: exec run_defs mem_defs csv_job_config_field_delimiter)

text \<open>
  C7, amended. For a supplied separator \<open>s\<close>, every job that is submitted has: no field
  delimiter when \<open>s\<close> is empty; the tab character when \<open>s\<close> is the two characters
  backslash and \<open>t\<close>; and \<open>s\<close> itself for any other non-empty \<open>s\<close>. When the file is
  not converted and the write disposition exists, that job is submitted.
\<close>

theorem separator_of_submitted_job:
  "set (map (cfg_field_delimiter \<circ> snd \<circ> snd)
     (submissions (trace_of (load_csv_from_gcs gcs_path table_name bq_client project_id
        dataset_id bucket_name schema skip_leading_rows write_disposition encoding (Some s)
        date_format datetime_format storage_client (w, [])))))
     \<subseteq> {if s = [] then None
         else if s = [CHR 0x5C, CHR ''t''] then Some [CHR 0x09] else Some s} \<and>
   (\<not> needs_utf16_conversion encoding \<longrightarrow>
    WriteDisposition_getattr write_disposition = Inr d \<longrightarrow>
    map (cfg_field_delimiter \<circ> snd \<circ> snd)
     (submissions (trace_of (load_csv_from_gcs gcs_path table_name bq_client project_id
        dataset_id bucket_name schema skip_leading_rows write_disposition encoding (Some s)
        date_format datetime_format storage_client (w, []))))
     = [if s = [] then None
        else if s = [CHR 0x5C, CHR ''t''] then Some [CHR 0x09] else Some s])"
proof -
  let ?S = "submissions (trace_of (load_csv_from_gcs gcs_path table_name bq_client project_id
        dataset_id bucket_name schema skip_leading_rows write_disposition encoding (Some s)
        date_format datetime_format storage_client (w, [])))"
  let ?x = "if s = [] then None
            else if s = [CHR 0x5C, CHR ''t''] then Some [CHR 0x09] else Some s"
  show ?thesis
  proof (cases "needs_utf16_conversion encoding")
    case True
    have "?S = [] \<or>
      ?S = [(''gs://'' @ bucket_name @ ''/'' @ gcs_path @ ''.utf8'',
             project_id @ ''.'' @ dataset_id @ ''.'' @ table_name,
             csv_job_config write_disposition skip_leading_rows (Some ''utf-8'') (Some s)
               date_format datetime_format schema)]"
      by (rule csv_submissions_converted [OF True])
    then have "set (map (cfg_field_delimiter \<circ> snd \<circ> snd) ?S) \<subseteq> {?x}"
      by (auto simp add: csv_job_config_field_delimiter)
    with True show ?thesis by simp
  next
    case False
    have "?S = (case WriteDisposition_getattr write_disposition of
        Inl _ \<Rightarrow> []
      | Inr d \<Rightarrow> [(''gs://'' @ bucket_name @ ''/'' @ gcs_path,
                  project_id @ ''.'' @ dataset_id @ ''.'' @ table_name,
                  csv_job_config d skip_leading_rows encoding (Some s) date_format
                    datetime_format schema)])"
      by (rule csv_submissions_direct [OF False])
    then show ?thesis
      by (simp add: csv_job_config_field_delimiter split: sum.splits)
  qed
qed

theorem separator_of_submitted_job_witness:
  "\<not> needs_utf16_conversion None \<and>
   WriteDisposition_getattr ''WRITE_TRUNCATE'' = Inr ''WRITE_TRUNCATE'' \<and>
   map (cfg_field_delimiter \<circ> snd \<circ> snd)
     (submissions (trace_of (load_csv_from_gcs ''data/f.csv'' ''t'' (mem_bq (Inr ()))
        ''proj'' ''ds'' ''bucket'' None 1 ''WRITE_TRUNCATE'' None (Some [CHR 0x5C, CHR ''t''])
        None None None (store0, [])))) = [Some [CHR 0x09]] \<and>
   map (cfg_field_delimiter \<circ> snd \<circ> snd)
     (submissions (trace_of (load_csv_from_gcs ''data/f.csv'' ''t'' (mem_bq (Inr ()))
        ''proj'' ''ds'' ''bucket'' None 1 ''WRITE_TRUNCATE'' None (Some '';'')
        None None None (store0, [])))) = [Some '';'']"
proof -
  have n: "\<not> needs_utf16_conversion None"
    by (simp add: needs_utf16_conversion_None)
  have wd: "WriteDisposition_getattr ''WRITE_TRUNCATE'' = Inr ''WRITE_TRUNCATE''"
    by (simp add: WriteDisposition_getattr_def)
  have 1: "map (cfg_field_delimiter \<circ> snd \<circ> snd)
     (submissions (trace_of (load_csv_from_gcs ''data/f.csv'' ''t'' (mem_bq (Inr ()))
        ''proj'' ''ds'' ''bucket'' None 1 ''WRITE_TRUNCATE'' None (Some [CHR 0x5C, CHR ''t''])
        None None None (store0, [])))) = [Some [CHR 0x09]]"
    using n wd separator_of_submitted_job [of "''data/f.csv''" "''t''" "mem_bq (Inr ())"
      "''proj''" "''ds''" "''bucket''" None 1 "''WRITE_TRUNCATE''" None "[CHR 0x5C, CHR ''t'']"
      None None None store0 "''WRITE_TRUNCATE''"]
    by simp
  have 2: "map (cfg_field_delimiter \<circ> snd \<circ> snd)
     (submissions (trace_of (load_csv_from_gcs ''data/f.csv'' ''t'' (mem_bq (Inr ()))
        ''proj'' ''ds'' ''bucket'' None 1 ''WRITE_TRUNCATE'' None (Some '';'')
        None None None (store0, [])))) = [Some '';'']"
    using n wd separator_of_submitted_job [of "''data/f.csv''" "''t''" "mem_bq (Inr ())"
      "''proj''" "''ds''" "''bucket''" None 1 "''WRITE_TRUNCATE''" None "'';''"
      None None None store0 "''WRITE_TRUNCATE''"]
    by simp
  from n wd 1 2 show ?thesis by blast
qed

text \<open>
  C8. Take a run that reaches the clean-up: the file was converted and uploaded, the job
  was submitted and completed, the metadata was read. Whatever the delete of the
  temporary object does, the function returns the table identifier: a delete that
  raises \<open>e\<close> only adds the warning of line 201 to the output, in place of the message of
  line 199, and nothing is raised to the caller.
\<close>

theorem delete_failure_is_only_logged:
  assumes "needs_utf16_conversion encoding"
    and "download_as_bytes sc bucket_name gcs_path w = (Inr content, w1)"
    and "decode_utf16le content = Inr text_content"
    and "encode_utf8 text_content = Inr utf8_content"
    and "upload_from_string sc bucket_name (gcs_path @ ''.utf8'') utf8_content ''text/plain'' w1
           = (Inr (), w2)"
    and "WriteDisposition_getattr write_disposition = Inr d"
    and "load_table_from_uri bq_client (''gs://'' @ bucket_name @ ''/'' @ gcs_path @ ''.utf8'')
           (project_id @ ''.'' @ dataset_id @ ''.'' @ table_name)
           (csv_job_config d skip_leading_rows (Some ''utf-8'') sep date_format datetime_format
              schema) w2 = (Inr j, w3)"
    and "job_result bq_client j w3 = (Inr (), w4)"
    and "get_table bq_client (project_id @ ''.'' @ dataset_id @ ''.'' @ table_name) w4
           = (Inr table, w5)"
    and "num_bytes table = Some n"
    and "blob_delete sc bucket_name (gcs_path @ ''.utf8'') w5 = (outcome, w6)"
  shows "load_csv_from_gcs gcs_path table_name bq_client project_id dataset_id bucket_name
      schema skip_leading_rows write_disposition encoding sep date_format datetime_format
      (Some sc) (w, []) =
    (Inr (project_id @ ''.'' @ dataset_id @ ''.'' @ table_name), w6,
     [Print (MsgConversion gcs_path),
      Download bucket_name gcs_path,
      Upload bucket_name (gcs_path @ ''.utf8'') utf8_content ''text/plain'',
      Print (MsgConverted (gcs_path @ ''.utf8'')),
      Print (MsgLoading (''gs://'' @ bucket_name @ ''/'' @ gcs_path @ ''.utf8'')
        (project_id @ ''.'' @ dataset_id @ ''.'' @ table_name)),
      Submit (''gs://'' @ bucket_name @ ''/'' @ gcs_path @ ''.utf8'')
        (project_id @ ''.'' @ dataset_id @ ''.'' @ table_name)
        (csv_job_config d skip_leading_rows (Some ''utf-8'') sep date_format datetime_format
           schema),
      Wait j,
      GetTable (project_id @ ''.'' @ dataset_id @ ''.'' @ table_name),
      Print (MsgRows (num_rows table) (project_id @ ''.'' @ dataset_id @ ''.'' @ table_name)),
      Print (MsgSize n),
      Delete bucket_name (gcs_path @ ''.utf8''),
      Print (case outcome of
               Inl e \<Rightarrow> MsgWarnDelete (gcs_path @ ''.utf8'') e
             | Inr _ \<Rightarrow> MsgTempDeleted (gcs_path @ ''.utf8''))])"
  unfolding load_csv_from_gcs_def Let_def
  using assms
  by (cases outcome) (simp_all add: exec run_defs)

theorem delete_failure_is_only_logged_witness:
  "result_of (load_csv_from_gcs ''data/f.csv'' ''t'' (mem_bq (Inr ())) ''proj'' ''ds''
     ''bucket'' None 1 ''WRITE_TRUNCATE'' (Some ''utf-16le'') (Some '';'') None None
     (Some (mem_storage True)) (store0, [])) = Inr ''proj.ds.t'' \<and>
   deletions (trace_of (load_csv_from_gcs ''data/f.csv'' ''t'' (mem_bq (Inr ())) ''proj'' ''ds''
     ''bucket'' None 1 ''WRITE_TRUNCATE'' (Some ''utf-16le'') (Some '';'') None None
     (Some (mem_storage True)) (store0, []))) = [(''bucket'', ''data/f.csv.utf8'')] \<and>
   last (trace_of (load_csv_from_gcs ''data/f.csv'' ''t'' (mem_bq (Inr ())) ''proj'' ''ds''
     ''bucket'' None 1 ''WRITE_TRUNCATE'' (Some ''utf-16le'') (Some '';'') None None
     (Some (mem_storage True)) (store0, []))) =
     Print (MsgWarnDelete ''data/f.csv.utf8'' (GoogleCloudError ''Forbidden''))"
proof -
  let ?w = "store0((''bucket'', ''data/f.csv.utf8'') := Some [0x61, 0x3B, 0x62])"
  let ?cfg = "csv_job_config ''WRITE_TRUNCATE'' 1 (Some ''utf-8'') (Some '';'') None None None"
  have n: "needs_utf16_conversion (Some ''utf-16le'')"
    by (simp add: mem_defs)
  have dl: "download_as_bytes (mem_storage True) ''bucket'' ''data/f.csv'' store0
      = (Inr [0x61, 0x00, 0x3B, 0x00, 0x62, 0x00], store0)"
    by (simp add: mem_defs)
  have dec: "decode_utf16le [0x61, 0x00, 0x3B, 0x00, 0x62, 0x00] = Inr [97, 59, 98]"
    by (simp add: mem_defs)
  have enc: "encode_utf8 [97, 59, 98] = Inr [0x61, 0x3B, 0x62]"
    by (simp add: mem_defs)
  have up: "upload_from_string (mem_storage True) ''bucket'' (''data/f.csv'' @ ''.utf8'')
      [0x61, 0x3B, 0x62] ''text/plain'' store0 = (Inr (), ?w)"
    by (simp add: mem_storage_def)
  have wd: "WriteDisposition_getattr ''WRITE_TRUNCATE'' = Inr ''WRITE_TRUNCATE''"
    by (simp add: mem_defs)
  have sub: "load_table_from_uri (mem_bq (Inr ()))
      (''gs://'' @ ''bucket'' @ ''/'' @ ''data/f.csv'' @ ''.utf8'')
      (''proj'' @ ''.'' @ ''ds'' @ ''.'' @ ''t'') ?cfg ?w = (Inr 0, ?w)"
    by (simp add: mem_bq_def)
  have wait: "job_result (mem_bq (Inr ())) 0 ?w = (Inr (), ?w)"
    by (simp add: mem_bq_def)
  have meta: "get_table (mem_bq (Inr ())) (''proj'' @ ''.'' @ ''ds'' @ ''.'' @ ''t'') ?w
      = (Inr \<lparr>num_rows = Some 2, num_bytes = Some 10\<rparr>, ?w)"
    by (simp add: mem_bq_def)
  have size: "num_bytes \<lparr>num_rows = Some 2, num_bytes = Some 10\<rparr> = Some 10"
    by simp
  have del: "blob_delete (mem_storage True) ''bucket'' (''data/f.csv'' @ ''.utf8'') ?w
      = (Inl (GoogleCloudError ''Forbidden''), ?w)"
    by (simp add: mem_storage_def)
  show ?thesis
    by (simp add: delete_failure_is_only_logged [OF n dl dec enc up wd sub wait meta size del]
        run_defs)
qed

text \<open>
  C9. When \<^verbatim>\<open>load_job.result()\<close> raises \<open>e\<close>, the function raises \<open>e\<close> itself, and the
  wait is the last thing it does: one job was submitted and waited for once, there is no
  second attempt and no later call. This holds for \<^verbatim>\<open>load_parquet_from_gcs\<close>, for
  \<^verbatim>\<open>load_csv_from_gcs\<close> without conversion, and for \<^verbatim>\<open>load_csv_from_gcs\<close> after a
  conversion.
\<close>

theorem job_wait_exception_propagates:
  "(WriteDisposition_getattr write_disposition = Inr d \<longrightarrow>
    load_table_from_uri bq_client (''gs://'' @ bucket_name @ ''/'' @ gcs_path)
      (project_id @ ''.'' @ dataset_id @ ''.'' @ table_name) (parquet_job_config d schema) w
      = (Inr j, w1) \<longrightarrow>
    job_result bq_client j w1 = (Inl e, w2) \<longrightarrow>
    load_parquet_from_gcs stdout gcs_path table_name bq_client project_id dataset_id
      bucket_name schema primary_key write_disposition (w, []) =
    (Inl e, w2,
     [Print (MsgLoading (''gs://'' @ bucket_name @ ''/'' @ gcs_path)
        (project_id @ ''.'' @ dataset_id @ ''.'' @ table_name)),
      Submit (''gs://'' @ bucket_name @ ''/'' @ gcs_path)
        (project_id @ ''.'' @ dataset_id @ ''.'' @ table_name) (parquet_job_config d schema),
      Wait j])) \<and>
   (\<not> needs_utf16_conversion encoding \<longrightarrow>
    WriteDisposition_getattr write_disposition = Inr d \<longrightarrow>
    load_table_from_uri bq_client (''gs://'' @ bucket_name @ ''/'' @ gcs_path)
      (project_id @ ''.'' @ dataset_id @ ''.'' @ table_name)
      (csv_job_config d skip_leading_rows encoding sep date_format datetime_format schema) w
      = (Inr j, w1) \<longrightarrow>
    job_result bq_client j w1 = (Inl e, w2) \<longrightarrow>
    load_csv_from_gcs gcs_path table_name bq_client project_id dataset_id bucket_name
      schema skip_leading_rows write_disposition encoding sep date_format datetime_format
      storage_client (w, []) =
    (Inl e, w2,
     [Print (MsgLoading (''gs://'' @ bucket_name @ ''/'' @ gcs_path)
        (project_id @ ''.'' @ dataset_id @ ''.'' @ table_name)),
      Submit (''gs://'' @ bucket_name @ ''/'' @ gcs_path)
        (project_id @ ''.'' @ dataset_id @ ''.'' @ table_name)
        (csv_job_config d skip_leading_rows encoding sep date_format datetime_format schema),
      Wait j])) \<and>
   (needs_utf16_conversion encoding \<longrightarrow>
    download_as_bytes sc bucket_name gcs_path w = (Inr content, w1') \<longrightarrow>
    decode_utf16le content = Inr text_content \<longrightarrow>
    encode_utf8 text_content = Inr utf8_content \<longrightarrow>
    upload_from_string sc bucket_name (gcs_path @ ''.utf8'') utf8_content ''text/plain'' w1'
      = (Inr (), w2') \<longrightarrow>
    WriteDisposition_getattr write_disposition = Inr d \<longrightarrow>
    load_table_from_uri bq_client (''gs://'' @ bucket_name @ ''/'' @ gcs_path @ ''.utf8'')
      (project_id @ ''.'' @ dataset_id @ ''.'' @ table_name)
      (csv_job_config d skip_leading_rows (Some ''utf-8'') sep date_format datetime_format
         schema) w2'
      = (Inr j, w3') \<longrightarrow>
    job_result bq_client j w3' = (Inl e, w4') \<longrightarrow>
    load_csv_from_gcs gcs_path table_name bq_client project_id dataset_id bucket_name
      schema skip_leading_rows write_disposition encoding sep date_format datetime_format
      (Some sc) (w, []) =
    (Inl e, w4',
     [Print (MsgConversion gcs_path),
      Download bucket_name gcs_path,
      Upload bucket_name (gcs_path @ ''.utf8'') utf8_content ''text/plain'',
      Print (MsgConverted (gcs_path @ ''.utf8'')),
      Print (MsgLoading (''gs://'' @ bucket_name @ ''/'' @ gcs_path @ ''.utf8'')
        (project_id @ ''.'' @ dataset_id @ ''.'' @ table_name)),
      Submit (''gs://'' @ bucket_name @ ''/'' @ gcs_path @ ''.utf8'')
        (project_id @ ''.'' @ dataset_id @ ''.'' @ table_name)
        (csv_job_config d skip_leading_rows (Some ''utf-8'') sep date_format datetime_format
           schema),
      Wait j]))"
proof (intro conjI impI)
  assume "WriteDisposition_getattr write_disposition = Inr d"
    "load_table_from_uri bq_client (''gs://'' @ bucket_name @ ''/'' @ gcs_path)
      (project_id @ ''.'' @ dataset_id @ ''.'' @ table_name) (parquet_job_config d schema) w
      = (Inr j, w1)"
    "job_result bq_client j w1 = (Inl e, w2)"
  then show "load_parquet_from_gcs stdout gcs_path table_name bq_client project_id dataset_id
      bucket_name schema primary_key write_disposition (w, []) =
    (Inl e, w2,
     [Print (MsgLoading (''gs://'' @ bucket_name @ ''/'' @ gcs_path)
        (project_id @ ''.'' @ dataset_id @ ''.'' @ table_name)),
      Submit (''gs://'' @ bucket_name @ ''/'' @ gcs_path)
        (project_id @ ''.'' @ dataset_id @ ''.'' @ table_name) (parquet_job_config d schema),
      Wait j])"
    unfolding load_parquet_from_gcs_def Let_def
    by (simp add: exec)
next
  assume "\<not> needs_utf16_conversion encoding"
    "WriteDisposition_getattr write_disposition = Inr d"
    "load_table_from_uri bq_client (''gs://'' @ bucket_name @ ''/'' @ gcs_path)
      (project_id @ ''.'' @ dataset_id @ ''.'' @ table_name)
      (csv_job_config d skip_leading_rows encoding sep date_format datetime_format schema) w
      = (Inr j, w1)"
    "job_result bq_client j w1 = (Inl e, w2)"
  then show "load_csv_from_gcs gcs_path table_name bq_client project_id dataset_id bucket_name
      schema skip_leading_rows write_disposition encoding sep date_format datetime_format
      storage_client (w, []) =
    (Inl e, w2,
     [Print (MsgLoading (''gs://'' @ bucket_name @ ''/'' @ gcs_path)
        (project_id @ ''.'' @ dataset_id @ ''.'' @ table_name)),
      Submit (''gs://'' @ bucket_name @ ''/'' @ gcs_path)
        (project_id @ ''.'' @ dataset_id @ ''.'' @ table_name)
        (csv_job_config d skip_leading_rows encoding sep date_format datetime_format schema),
      Wait j])"
    unfolding load_csv_from_gcs_def Let_def
    by (simp add: exec)
next
  assume "needs_utf16_conversion encoding"
    "download_as_bytes sc bucket_name gcs_path w = (Inr content, w1')"
    "decode_utf16le content = Inr text_content"
    "encode_utf8 text_content = Inr utf8_content"
    "upload_from_string sc bucket_name (gcs_path @ ''.utf8'') utf8_content ''text/plain'' w1'
      = (Inr (), w2')"
    "WriteDisposition_getattr write_disposition = Inr d"
    "load_table_from_uri bq_client (''gs://'' @ bucket_name @ ''/'' @ gcs_path @ ''.utf8'')
      (project_id @ ''.'' @ dataset_id @ ''.'' @ table_name)
      (csv_job_config d skip_leading_rows (Some ''utf-8'') sep date_format datetime_format
         schema) w2'
      = (Inr j, w3')"
    "job_result bq_client j w3' = (Inl e, w4')"
  then show "load_csv_from_gcs gcs_path table_name bq_client project_id dataset_id bucket_name
      schema skip_leading_rows write_disposition encoding sep date_format datetime_format
      (Some sc) (w, []) =
    (Inl e, w4',
     [Print (MsgConversion gcs_path),
      Download bucket_name gcs_path,
      Upload bucket_name (gcs_path @ ''.utf8'') utf8_content ''text/plain'',
      Print (MsgConverted (gcs_path @ ''.utf8'')),
      Print (MsgLoading (''gs://'' @ bucket_name @ ''/'' @ gcs_path @ ''.utf8'')
        (project_id @ ''.'' @ dataset_id @ ''.'' @ table_name)),
      Submit (''gs://'' @ bucket_name @ ''/'' @ gcs_path @ ''.utf8'')
        (project_id @ ''.'' @ dataset_id @ ''.'' @ table_name)
        (csv_job_config d skip_leading_rows (Some ''utf-8'') sep date_format datetime_format
           schema),
      Wait j])"
    unfolding load_csv_from_gcs_def Let_def
    by (simp add: exec)
qed

theorem job_wait_exception_propagates_witness:
  "result_of (load_parquet_from_gcs utf8_console ''x.parquet'' ''p''
     (mem_bq (Inl (GoogleCloudError ''BadRequest''))) ''proj'' ''ds'' ''bucket'' None None
     ''WRITE_TRUNCATE'' (store0, [])) = Inl (GoogleCloudError ''BadRequest'') \<and>
   result_of (load_csv_from_gcs ''data/f.csv'' ''t''
     (mem_bq (Inl (GoogleCloudError ''BadRequest''))) ''proj'' ''ds'' ''bucket'' None 1
     ''WRITE_TRUNCATE'' None (Some '';'') None None None (store0, []))
     = Inl (GoogleCloudError ''BadRequest'') \<and>
   result_of (load_csv_from_gcs ''data/f.csv'' ''t''
     (mem_bq (Inl (GoogleCloudError ''BadRequest''))) ''proj'' ''ds'' ''bucket'' None 1
     ''WRITE_TRUNCATE'' (Some ''utf-16le'') (Some '';'') None None (Some (mem_storage False))
     (store0, [])) = Inl (GoogleCloudError ''BadRequest'')"
proof -
  let ?bq = "mem_bq (Inl (GoogleCloudError ''BadRequest''))"
  let ?w = "store0((''bucket'', ''data/f.csv.utf8'') := Some [0x61, 0x3B, 0x62])"
  have wd: "WriteDisposition_getattr ''WRITE_TRUNCATE'' = Inr ''WRITE_TRUNCATE''"
    by (simp add: mem_defs)
  have sub: "load_table_from_uri ?bq uri table_id cfg w' = (Inr 0, w')"
    for uri table_id cfg and w' :: store
    by (simp add: mem_bq_def)
  have wait: "job_result ?bq 0 w' = (Inl (GoogleCloudError ''BadRequest''), w')"
    for w' :: store
    by (simp add: mem_bq_def)
  have n0: "\<not> needs_utf16_conversion None"
    by (simp add: mem_defs)
  have n: "needs_utf16_conversion (Some ''utf-16le'')"
    by (simp add: mem_defs)
  have dl: "download_as_bytes (mem_storage False) ''bucket'' ''data/f.csv'' store0
      = (Inr [0x61, 0x00, 0x3B, 0x00, 0x62, 0x00], store0)"
    by (simp add: mem_defs)
  have dec: "decode_utf16le [0x61, 0x00, 0x3B, 0x00, 0x62, 0x00] = Inr [97, 59, 98]"
    by (simp add: mem_defs)
  have enc: "encode_utf8 [97, 59, 98] = Inr [0x61, 0x3B, 0x62]"
    by (simp add: mem_defs)
  have up: "upload_from_string (mem_storage False) ''bucket'' (''data/f.csv'' @ ''.utf8'')
      [0x61, 0x3B, 0x62] ''text/plain'' store0 = (Inr (), ?w)"
    by (simp add: mem_storage_def)
  have 1: "result_of (load_parquet_from_gcs utf8_console ''x.parquet'' ''p'' ?bq ''proj''
      ''ds'' ''bucket'' None None ''WRITE_TRUNCATE'' (store0, []))
      = Inl (GoogleCloudError ''BadRequest'')"
    using job_wait_exception_propagates [THEN conjunct1, rule_format, OF wd sub wait]
    by (simp add: result_of_def)
  have 2: "result_of (load_csv_from_gcs ''data/f.csv'' ''t'' ?bq ''proj'' ''ds'' ''bucket''
      None 1 ''WRITE_TRUNCATE'' None (Some '';'') None None None (store0, []))
      = Inl (GoogleCloudError ''BadRequest'')"
    using job_wait_exception_propagates [THEN conjunct2, THEN conjunct1, rule_format,
      OF n0 wd sub wait]
    by (simp add: result_of_def)
  have 3: "result_of (load_csv_from_gcs ''data/f.csv'' ''t'' ?bq ''proj'' ''ds'' ''bucket''
      None 1 ''WRITE_TRUNCATE'' (Some ''utf-16le'') (Some '';'') None None
      (Some (mem_storage False)) (store0, [])) = Inl (GoogleCloudError ''BadRequest'')"
    using job_wait_exception_propagates [THEN conjunct2, THEN conjunct2, rule_format,
      OF n dl dec enc up wd sub wait]
    by (simp add: result_of_def)
  from 1 2 3 show ?thesis by blast
qed




end
